theory Spec2Isabelle
  imports Main "HOL-Library.AList"
begin

section \<open>JavaScript values\<close>

text \<open>
  The connection class of \<^verbatim>\<open>src/lib/Connection.js\<close> tests its inputs with
  JavaScript's truthiness and with lodash's type predicates, so the values it handles are
  modelled as a datatype of their own. A number is an integer here (no NaN, no fractions),
  an Error object is given by its message, a function by an identity and its source text,
  and a plain object by the list of its own properties (no conversion methods of its own,
  and properties stored on a function or an Error are not tracked).
\<close>

datatype jsval =
    JUndefined
  | JNull
  | JBool bool
  | JNum int
  | JStr string
  | JErr string
  | JFun nat string
  | JObj "(string \<times> jsval) list"

fun truthy :: "jsval \<Rightarrow> bool" where
  "truthy JUndefined = False"
| "truthy JNull = False"
| "truthy (JBool b) = b"
| "truthy (JNum n) = (n \<noteq> 0)"
| "truthy (JStr s) = (s \<noteq> [])"
| "truthy (JErr m) = True"
| "truthy (JFun i src) = True"
| "truthy (JObj fs) = True"

text \<open>\<^verbatim>\<open>a || b\<close>\<close>

definition js_or :: "jsval \<Rightarrow> jsval \<Rightarrow> jsval" where
  "js_or a b = (if truthy a then a else b)"

text \<open>lodash: \<^verbatim>\<open>_.isFunction\<close>, \<^verbatim>\<open>_.isString\<close>, and \<^verbatim>\<open>_.isObject\<close> (true of
  objects and of functions). \<^verbatim>\<open>_.isNumber\<close> and \<^verbatim>\<open>_.isBoolean\<close> appear below as a
  case distinction on the value.\<close>

fun isFunction :: "jsval \<Rightarrow> bool" where
  "isFunction (JFun i src) = True"
| "isFunction v = False"

fun isString :: "jsval \<Rightarrow> bool" where
  "isString (JStr s) = True"
| "isString v = False"

fun isObject :: "jsval \<Rightarrow> bool" where
  "isObject (JErr m) = True"
| "isObject (JFun i src) = True"
| "isObject (JObj fs) = True"
| "isObject v = False"

text \<open>Reading and writing a property. The property names the connection reads
  (\<^verbatim>\<open>reqId\<close>, \<^verbatim>\<open>action\<close>, \<^verbatim>\<open>clientId\<close>, \<^verbatim>\<open>connectionId\<close>, \<^verbatim>\<open>socketId\<close>,
  \<^verbatim>\<open>token\<close>, \<^verbatim>\<open>type\<close>) are inherited by no value, so reading one of them from anything
  but a plain object that has it gives \<^verbatim>\<open>undefined\<close>. Reading from \<^verbatim>\<open>null\<close> or
  \<^verbatim>\<open>undefined\<close> throws; the callers below check for that first.\<close>

fun get_prop :: "jsval \<Rightarrow> string \<Rightarrow> jsval" where
  "get_prop (JObj fs) k = (case map_of fs k of Some v \<Rightarrow> v | None \<Rightarrow> JUndefined)"
| "get_prop v k = JUndefined"

fun set_prop :: "jsval \<Rightarrow> string \<Rightarrow> jsval \<Rightarrow> jsval" where
  "set_prop (JObj fs) k x = JObj (AList.update k x fs)"
| "set_prop v k x = v"

text \<open>Conversion to a string, as string concatenation and property-key lookup do it.\<close>

fun nat_digits :: "nat \<Rightarrow> string" where
  "nat_digits n =
     (if n < 10 then [''0123456789'' ! n]
      else nat_digits (n div 10) @ [''0123456789'' ! (n mod 10)])"

declare nat_digits.simps [simp del]

fun to_str :: "jsval \<Rightarrow> string" where
  "to_str JUndefined = ''undefined''"
| "to_str JNull = ''null''"
| "to_str (JBool b) = (if b then ''true'' else ''false'')"
| "to_str (JNum n) = (if n < 0 then CHR ''-'' # nat_digits (nat (- n)) else nat_digits (nat n))"
| "to_str (JStr s) = s"
| "to_str (JErr m) = (if m = [] then ''Error'' else ''Error: '' @ m)"
| "to_str (JFun i src) = src"
| "to_str (JObj fs) = ''[object Object]''"

section \<open>The connection and its environment\<close>

datatype cstate =
  Initialized | Connecting | Connected | Disconnected | Closing | Closed | Failed

text \<open>\<^verbatim>\<open>this.states\<close>: each state is the string of its name, which is also the name of
  the event emitted on entering it.\<close>

fun state_name :: "cstate \<Rightarrow> string" where
  "state_name Initialized = ''initialized''"
| "state_name Connecting = ''connecting''"
| "state_name Connected = ''connected''"
| "state_name Disconnected = ''disconnected''"
| "state_name Closing = ''closing''"
| "state_name Closed = ''closed''"
| "state_name Failed = ''failed''"

text \<open>What a call can throw: \<^verbatim>\<open>new Error(message)\<close>, or the TypeError of a method call
  on \<^verbatim>\<open>null\<close>.\<close>

datatype exn = Error string | TypeError

text \<open>The handlers the connection registers on a transport handle.\<close>

datatype handler = OnOpen | OnConnectError | OnClose | OnError | OnMessage

record listener =
  l_event :: string
  l_handler :: handler
  l_once :: bool

record sock =
  sock_id :: nat
  sock_url :: string
  readyState :: string
  listeners :: "listener list"

text \<open>The function given to \<^verbatim>\<open>setTimeout\<close>: \<^verbatim>\<open>this._reconnect.bind(this)\<close>, or
  \<^verbatim>\<open>this._execCallback.bind(this, a, b)\<close> with its two bound arguments.\<close>

datatype timer_fn = ReconnectFn | ExecCallbackFn jsval jsval

record timer =
  timer_fn :: timer_fn
  delay :: jsval

text \<open>What the connection does to the outside: events it emits, handlers it calls, and
  calls on the transport.\<close>

datatype effect =
    Emit string "jsval list"
  | Call jsval "jsval list"
  | SockOpen nat string
  | SockClose nat
  | SockSend nat jsval

text \<open>An entry of \<^verbatim>\<open>this._callbacks\<close>: \<^verbatim>\<open>{cb, timeout}\<close>, the timeout being the
  handle of its timer.\<close>

record pending =
  cb :: jsval
  timeout :: nat

record options =
  autoReconnect :: bool
  retriesAmount :: int
  noAutoConnect :: jsval

text \<open>The fields of a \<^verbatim>\<open>Connection\<close>, followed by its environment: the timers that
  are scheduled and have neither fired nor been cleared, the next fresh handle, and the
  effects so far. \<^verbatim>\<open>_callbacks\<close> is a map from property keys to entries; the model
  covers the keys that an array does not already answer by itself (\<^verbatim>\<open>length\<close> and the
  inherited method names), which includes every identifier \<^verbatim>\<open>randomReqId\<close> generates.
  Listeners of emitted events and stored handlers are taken to return normally and not
  to call back into the connection.\<close>

record conn =
  secure :: jsval
  state :: cstate
  clientId :: jsval
  connectionId :: jsval
  secret :: jsval
  token :: jsval
  host :: string
  url :: string
  options :: options
  socket :: "sock option"
  reconnectTimeout :: "nat option"
  currentRetries :: int
  callbacks :: "string \<rightharpoonup> pending"
  timers :: "nat \<rightharpoonup> timer"
  next_id :: nat
  effects :: "effect list"

section \<open>Operations\<close>

text \<open>Each method of the class is a function of the same name, without the leading
  underscore of the private ones (\<^verbatim>\<open>_buildUrl\<close> is \<open>buildUrl\<close>, \<^verbatim>\<open>_reconnect\<close> is
  \<open>reconnect\<close>, and so on). A method that can throw returns the exception or \<open>()\<close>
  together with the connection as it is at that moment.\<close>

definition emit :: "conn \<Rightarrow> string \<Rightarrow> jsval list \<Rightarrow> conn" where
  "emit c name args = c\<lparr>effects := effects c @ [Emit name args]\<rparr>"

definition setTimeout :: "conn \<Rightarrow> timer_fn \<Rightarrow> jsval \<Rightarrow> nat \<times> conn" where
  "setTimeout c f ms =
     (next_id c,
      c\<lparr>timers := (timers c)(next_id c \<mapsto> \<lparr>timer_fn = f, delay = ms\<rparr>),
        next_id := Suc (next_id c)\<rparr>)"

definition clearTimeout :: "conn \<Rightarrow> nat \<Rightarrow> conn" where
  "clearTimeout c t = c\<lparr>timers := (timers c)(t := None)\<rparr>"

subsection \<open>URL and credentials\<close>

definition buildUrl :: "conn \<Rightarrow> string" where
  "buildUrl c =
     (let u = url c;
          u = (if truthy (secret c) then u @ ''&secret='' @ to_str (secret c) else u);
          u = (if truthy (token c) then u @ ''&access_token='' @ to_str (token c) else u);
          u = (if truthy (clientId c) then u @ ''&clientId='' @ to_str (clientId c) else u)
      in u)"

definition hasAuth :: "conn \<Rightarrow> bool" where
  "hasAuth c = truthy (js_or (token c) (secret c))"

definition fail :: "conn \<Rightarrow> jsval \<Rightarrow> conn" where
  "fail c err =
     (let c1 = c\<lparr>state := Failed\<rparr>
      in emit c1 (state_name (state c1)) [js_or err (JStr ''Something wrong'')])"

definition isConnected :: "conn \<Rightarrow> bool" where
  "isConnected c = (state c = Connected)"

subsection \<open>Listeners\<close>

definition removeAllListeners :: "sock \<Rightarrow> string \<Rightarrow> sock" where
  "removeAllListeners s ev = s\<lparr>listeners := filter (\<lambda>l. l_event l \<noteq> ev) (listeners s)\<rparr>"

definition add_listener :: "sock \<Rightarrow> string \<Rightarrow> handler \<Rightarrow> bool \<Rightarrow> sock" where
  "add_listener s ev h once =
     s\<lparr>listeners := listeners s @ [\<lparr>l_event = ev, l_handler = h, l_once = once\<rparr>]\<rparr>"

definition clearSocketListeners :: "conn \<Rightarrow> conn" where
  "clearSocketListeners c =
     (case socket c of
        None \<Rightarrow> c
      | Some s \<Rightarrow>
          c\<lparr>socket := Some (removeAllListeners (removeAllListeners (removeAllListeners
                 (removeAllListeners s ''open'') ''close'') ''error'') ''message'')\<rparr>)"


subsection \<open>Connecting\<close>

text \<open>\<^verbatim>\<open>eio(url, options)\<close> returns a new transport handle, which is opening. Closing the
  previous handle is recorded as an effect: its listeners were removed first, so whatever
  the transport emits while closing reaches no handler of the connection.\<close>

definition connect :: "conn \<Rightarrow> (exn + unit) \<times> conn" where
  "connect c =
     (case (if state c = Connected
            then (case socket c of
                    None \<Rightarrow> Inl TypeError
                  | Some s \<Rightarrow> Inr (readyState s = ''open''))
            else Inr False) of
        Inl e \<Rightarrow> (Inl e, c)
      | Inr True \<Rightarrow> (Inr (), c)
      | Inr False \<Rightarrow>
          if \<not> hasAuth c then (Inr (), fail c (JStr ''No auth parameters''))
          else
            (let c1 = c\<lparr>state := Connecting\<rparr>;
                 c2 = clearSocketListeners c1;
                 c3 = (case socket c2 of
                         None \<Rightarrow> c2
                       | Some s \<Rightarrow> c2\<lparr>effects := effects c2 @ [SockClose (sock_id s)]\<rparr>);
                 u = buildUrl c3;
                 s0 = \<lparr>sock_id = next_id c3, sock_url = u, readyState = ''opening'',
                        listeners = []\<rparr>;
                 s1 = removeAllListeners (removeAllListeners s0 ''open'') ''error'';
                 s2 = add_listener (add_listener s1 ''open'' OnOpen True)
                        ''error'' OnConnectError True
             in (Inr (),
                 c3\<lparr>socket := Some s2, next_id := Suc (next_id c3),
                    effects := effects c3 @ [SockOpen (next_id c3) u]\<rparr>)))"

subsection \<open>Reconnection\<close>

definition reconnect :: "conn \<Rightarrow> (exn + unit) \<times> conn" where
  "reconnect c =
     (if \<not> autoReconnect (options c) then (Inr (), c)
      else if currentRetries c \<ge> retriesAmount (options c) then (Inr (), c)
      else if isConnected c then (Inr (), c\<lparr>currentRetries := 0\<rparr>)
      else if state c \<noteq> Connecting \<and> state c \<noteq> Connected
           then connect (c\<lparr>currentRetries := currentRetries c + 1\<rparr>)
      else (Inr (), c))"

definition setupReconnect :: "conn \<Rightarrow> conn" where
  "setupReconnect c =
     (let c1 = (case reconnectTimeout c of
                  None \<Rightarrow> c
                | Some t \<Rightarrow> (clearTimeout c t)\<lparr>reconnectTimeout := None\<rparr>)
      in if currentRetries c1 \<ge> retriesAmount (options c1) then c1
         else (case setTimeout c1 ReconnectFn (JNum 1000) of
                 (t, c2) \<Rightarrow> c2\<lparr>reconnectTimeout := Some t\<rparr>))"

text \<open>The one-shot error listener that \<^verbatim>\<open>connect\<close> registers.\<close>

definition onConnectError :: "conn \<Rightarrow> jsval \<Rightarrow> conn" where
  "onConnectError c err =
     (if truthy err \<and> get_prop err ''type'' = JStr ''TransportError''
      then setupReconnect (fail c err)
      else c)"

subsection \<open>Closing\<close>

text \<open>Whether and when the transport then calls the close handler is the transport's
  business; \<^verbatim>\<open>onClose\<close> is a step of its own.\<close>

definition close :: "conn \<Rightarrow> (exn + unit) \<times> conn" where
  "close c =
     (let c1 = c\<lparr>state := Closing\<rparr>;
          c2 = emit c1 (state_name Closing) []
      in case socket c2 of
           None \<Rightarrow> (Inl TypeError, c2)
         | Some s \<Rightarrow>
             (Inr (), clearSocketListeners (c2\<lparr>effects := effects c2 @ [SockClose (sock_id s)]\<rparr>)))"

definition onClose :: "conn \<Rightarrow> conn" where
  "onClose c =
     (if state c = Closing
      then emit (c\<lparr>state := Closed\<rparr>) (state_name Closed) []
      else setupReconnect (emit (c\<lparr>state := Disconnected\<rparr>) (state_name Disconnected) []))"

subsection \<open>The callback registry\<close>

definition execCallback :: "conn \<Rightarrow> jsval \<Rightarrow> jsval \<Rightarrow> jsval \<Rightarrow> conn" where
  "execCallback c reqId err data =
     (case callbacks c (to_str reqId) of
        None \<Rightarrow> c
      | Some e \<Rightarrow>
          (let c1 = clearTimeout c (timeout e);
               c2 = (if isFunction (cb e)
                     then c1\<lparr>effects := effects c1 @ [Call (cb e) [err, data]]\<rparr>
                     else c1)
           in c2\<lparr>callbacks := (callbacks c2)(to_str reqId := None)\<rparr>))"

definition addCallback :: "conn \<Rightarrow> jsval \<Rightarrow> jsval \<Rightarrow> jsval \<Rightarrow> (exn + unit) \<times> conn" where
  "addCallback c reqId handler ms =
     (if callbacks c (to_str reqId) \<noteq> None
      then (Inl (Error (''Could not make add callback operation with reqId: '' @ to_str reqId)), c)
      else
        (let err = JErr (''Operation timeout for callback: '' @ to_str reqId)
         in case setTimeout c (ExecCallbackFn err JNull) (js_or ms (JNum 15000)) of
              (t, c1) \<Rightarrow>
                (Inr (),
                 c1\<lparr>callbacks := (callbacks c1)(to_str reqId \<mapsto> \<lparr>cb = handler, timeout = t\<rparr>)\<rparr>)))"

text \<open>A timer that fires: it leaves the table of scheduled timers and its function is
  called, with no further arguments. A handle that was cleared, or has fired, does nothing.\<close>

definition fire :: "conn \<Rightarrow> nat \<Rightarrow> (exn + unit) \<times> conn" where
  "fire c t =
     (case timers c t of
        None \<Rightarrow> (Inr (), c)
      | Some tm \<Rightarrow>
          (let c1 = c\<lparr>timers := (timers c)(t := None)\<rparr>
           in case timer_fn tm of
                ReconnectFn \<Rightarrow> reconnect c1
              | ExecCallbackFn a b \<Rightarrow> (Inr (), execCallback c1 a b JUndefined)))"

subsection \<open>Inbound messages\<close>

text \<open>Modelled from the spec: \<^verbatim>\<open>Message.ACTION.CONNECTED\<close> is defined in
  \<^verbatim>\<open>lib/Message.js\<close>, which is not among the sources; the specification's handshake
  envelope carries the action \<^verbatim>\<open>"connected"\<close>.\<close>

definition ACTION_CONNECTED :: jsval where
  "ACTION_CONNECTED = JStr ''connected''"

text \<open>The codec \<^verbatim>\<open>MessageMaster.parse\<close> is a parameter.\<close>

definition onMessage :: "(string \<Rightarrow> jsval) \<Rightarrow> conn \<Rightarrow> jsval \<Rightarrow> (exn + unit) \<times> conn" where
  "onMessage parse c data0 =
     (let data = (case data0 of JStr s \<Rightarrow> parse s | _ \<Rightarrow> data0)
      in if data = JUndefined \<or> data = JNull then (Inl TypeError, c)
         else
           (let c1 = (if truthy (get_prop data ''reqId'')
                        \<and> callbacks c (to_str (get_prop data ''reqId'')) \<noteq> None
                      then execCallback c (get_prop data ''reqId'') JNull data
                      else c)
            in if \<not> truthy (get_prop data ''action'') then (Inr (), c1)
               else if get_prop data ''action'' = ACTION_CONNECTED then
                 (let c2 = (if truthy (get_prop data ''clientId'')
                            then c1\<lparr>clientId := get_prop data ''clientId''\<rparr>
                            else c1);
                      c3 = (if truthy (js_or (get_prop data ''connectionId'') (get_prop data ''socketId''))
                            then c2\<lparr>connectionId :=
                                      js_or (get_prop data ''connectionId'') (get_prop data ''socketId'')\<rparr>
                            else c2);
                      c4 = c3\<lparr>currentRetries := 0\<rparr>;
                      c5 = c4\<lparr>state := Connected\<rparr>
                  in (Inr (), emit c5 (state_name Connected) []))
               else (Inr (), emit c1 ''message'' [data])))"

subsection \<open>Sending\<close>

text \<open>The codec \<^verbatim>\<open>MessageMaster.stringify\<close> is a parameter.\<close>

definition send :: "(jsval \<Rightarrow> string) \<Rightarrow> conn \<Rightarrow> jsval \<Rightarrow> (exn + unit) \<times> conn" where
  "send stringify c message =
     (let m = (if isObject message then JStr (stringify message) else message)
      in case socket c of
           None \<Rightarrow> (Inl TypeError, c)
         | Some s \<Rightarrow> (Inr (), c\<lparr>effects := effects c @ [SockSend (sock_id s) m]\<rparr>))"

definition possible :: string where
  "possible = ''ABCDEFGHIJKLMNOPQRSTUVWXYZabcdefghijklmnopqrstuvwxyz0123456789''"

definition charAt :: "string \<Rightarrow> nat \<Rightarrow> string" where
  "charAt s i = (if i < length s then [s ! i] else [])"

text \<open>The parameter \<open>rnd i\<close> is the value of
  \<^verbatim>\<open>Math.floor(Math.random() * possible.length)\<close> in round \<open>i\<close> of the loop.\<close>

definition randomReqId :: "(nat \<Rightarrow> nat) \<Rightarrow> conn \<Rightarrow> string" where
  "randomReqId rnd c =
     concat (map (\<lambda>i. charAt possible (rnd i)) [0..<24])
       @ to_str (js_or (connectionId c) (JStr ''----''))"

definition sendCallback ::
  "(jsval \<Rightarrow> string) \<Rightarrow> (nat \<Rightarrow> nat) \<Rightarrow> conn \<Rightarrow> jsval \<Rightarrow> jsval \<Rightarrow> jsval \<Rightarrow> (exn + unit) \<times> conn" where
  "sendCallback stringify rnd c message handler ms =
     (if \<not> isFunction handler then (Inr (), c)
      else if \<not> isObject message
      then (Inr (), c\<lparr>effects := effects c @ [Call handler [JErr ''Wrong message'']]\<rparr>)
      else
        (let ms1 = js_or ms (JNum 15000);
             reqId = JStr (randomReqId rnd c);
             message1 = set_prop message ''reqId'' reqId
         in case addCallback c reqId message1 ms1 of
              (Inl e, c1) \<Rightarrow> (Inl e, c1)
            | (Inr u, c1) \<Rightarrow> send stringify c1 message1))"

subsection \<open>Construction\<close>

text \<open>The configuration object, with the options the constructor reads. An option that
  is not given is \<^verbatim>\<open>undefined\<close>; the host is a string when given.\<close>

record config =
  cfg_secure :: jsval
  cfg_clientId :: jsval
  cfg_secret :: jsval
  cfg_token :: jsval
  cfg_authCallback :: jsval
  cfg_host :: "string option"
  cfg_retriesAmount :: jsval
  cfg_autoReconnect :: jsval
  cfg_noAutoConnect :: jsval

text \<open>What the caller's \<^verbatim>\<open>authCallback\<close> does when the constructor calls it: it
  returns without having called the completion function (it may call it later), or it
  calls it once with \<^verbatim>\<open>(err, tokenOrData)\<close> before returning.\<close>

datatype auth_reply = NoReply | Reply jsval jsval

text \<open>The completion function handed to \<^verbatim>\<open>authCallback\<close>.\<close>

definition authDone :: "conn \<Rightarrow> jsval \<Rightarrow> jsval \<Rightarrow> (exn + unit) \<times> conn" where
  "authDone c err tokenOrData =
     (if truthy err then (Inr (), fail c err)
      else
        (let c1 = (if isString tokenOrData then c\<lparr>token := tokenOrData\<rparr> else c);
             c2 = (if isObject tokenOrData \<and> truthy (get_prop tokenOrData ''token'')
                   then c1\<lparr>token := get_prop tokenOrData ''token''\<rparr>
                   else c1)
         in if \<not> truthy (token c2) then (Inr (), fail c2 (JStr ''No token received''))
            else connect c2))"

text \<open>The fields as the constructor's assignments give them.\<close>

definition initial_conn :: "config \<Rightarrow> conn" where
  "initial_conn opts =
     (let h0 = (case cfg_host opts of
                  None \<Rightarrow> ''localhost:8081''
                | Some h \<Rightarrow> if h = [] then ''localhost:8081'' else h);
          wss = (take 6 h0 = ''wss://'');
          sec = (if wss then JBool True else js_or (cfg_secure opts) (JBool False));
          h1 = (if wss then drop 6 h0 else h0);
          prefix = (if truthy sec then ''wss://'' else ''ws://'')
      in \<lparr>secure = sec,
          state = Initialized,
          clientId = js_or (cfg_clientId opts) (JStr []),
          connectionId = JNull,
          secret = js_or (cfg_secret opts) JNull,
          token = js_or (cfg_token opts) JNull,
          host = h1,
          url = prefix @ h1 @ ''?connect=1'',
          options = \<lparr>autoReconnect = (case cfg_autoReconnect opts of
                                          JBool b \<Rightarrow> b | _ \<Rightarrow> True),
                     retriesAmount = (case cfg_retriesAmount opts of
                                          JNum n \<Rightarrow> n | _ \<Rightarrow> 7),
                     noAutoConnect = (if isFunction (cfg_authCallback opts) then JBool True
                                      else cfg_noAutoConnect opts)\<rparr>,
          socket = None,
          reconnectTimeout = None,
          currentRetries = 0,
          callbacks = Map.empty,
          timers = Map.empty,
          next_id = 0,
          effects = []\<rparr>)"

text \<open>The constructor: the check of the credentials, the assignments, the call of
  \<^verbatim>\<open>authCallback\<close> when it is a function (its completion function may run at once,
  before the assignments that follow it), and the first \<^verbatim>\<open>connect\<close> unless
  \<^verbatim>\<open>noAutoConnect\<close> is set.\<close>

definition constructor :: "auth_reply \<Rightarrow> config \<Rightarrow> exn + conn" where
  "constructor reply opts =
     (if \<not> truthy (cfg_secret opts) \<and> \<not> truthy (cfg_token opts)
         \<and> \<not> truthy (cfg_authCallback opts)
      then Inl (Error ''No auth keys passed'')
      else
        (let c0 = initial_conn opts;
             r1 = (if isFunction (cfg_authCallback opts)
                   then (case reply of
                           NoReply \<Rightarrow> (Inr (), c0\<lparr>state := Connecting\<rparr>)
                         | Reply err tokenOrData \<Rightarrow>
                             authDone (c0\<lparr>state := Connecting\<rparr>) err tokenOrData)
                   else (Inr (), c0))
         in case r1 of
              (Inl e, c1) \<Rightarrow> Inl e
            | (Inr u, c1) \<Rightarrow>
                (let c2 = c1\<lparr>socket := None, reconnectTimeout := None,
                             currentRetries := 0, callbacks := Map.empty\<rparr>
                 in if \<not> truthy (noAutoConnect (options c2))
                    then (case connect c2 of
                            (Inl e, c3) \<Rightarrow> Inl e
                          | (Inr u, c3) \<Rightarrow> Inr c3)
                    else Inr c2)))"

section \<open>Events of the transport and runs\<close>









text \<open>The listeners the class registers pair each event with its handler. A connection
  is wired when its handle has only such listeners, detached when its handle has none.\<close>

definition wf_listener :: "listener \<Rightarrow> bool" where
  "wf_listener l =
     (l_event l = ''open'' \<and> l_handler l = OnOpen
      \<or> l_event l = ''error'' \<and> l_handler l = OnConnectError
      \<or> l_event l = ''close'' \<and> l_handler l = OnClose
      \<or> l_event l = ''error'' \<and> l_handler l = OnError
      \<or> l_event l = ''message'' \<and> l_handler l = OnMessage)"

definition wired :: "conn \<Rightarrow> bool" where
  "wired c = (case socket c of None \<Rightarrow> True | Some s \<Rightarrow> list_all wf_listener (listeners s))"

definition detached :: "conn \<Rightarrow> bool" where
  "detached c = (case socket c of None \<Rightarrow> True | Some s \<Rightarrow> listeners s = [])"



section \<open>Reading the query parameters of a URL\<close>

text \<open>The specification speaks of parsing the query parameters of the connection URL.
  No parser is part of the sources; \<open>spec_query_param\<close> is the usual one: the URL ends
  at the first \<^verbatim>\<open>#\<close>, the query is what follows its first \<^verbatim>\<open>?\<close>; the query is split
  at each \<^verbatim>\<open>&\<close>, each piece at its first \<^verbatim>\<open>=\<close>; in names and values \<^verbatim>\<open>+\<close> stands
  for a space and \<^verbatim>\<open>%XY\<close> for the byte with that hexadecimal code; the first parameter
  of a name is the one read.\<close>

definition hexval :: "char \<Rightarrow> nat option" where
  "hexval ch =
     (let n = of_char ch :: nat
      in if 48 \<le> n \<and> n \<le> 57 then Some (n - 48)
         else if 65 \<le> n \<and> n \<le> 70 then Some (n - 55)
         else if 97 \<le> n \<and> n \<le> 102 then Some (n - 87)
         else None)"

fun spec_url_decode :: "string \<Rightarrow> string" where
  "spec_url_decode [] = []"
| "spec_url_decode (ch # r) =
     (if ch = CHR ''%''
      then (case r of
              a # b # r' \<Rightarrow>
                (case (hexval a, hexval b) of
                   (Some x, Some y) \<Rightarrow> char_of (16 * x + y) # spec_url_decode r'
                 | _ \<Rightarrow> ch # spec_url_decode r)
            | _ \<Rightarrow> ch # spec_url_decode r)
      else (if ch = CHR ''+'' then CHR '' '' else ch) # spec_url_decode r)"

fun split_on :: "char \<Rightarrow> string \<Rightarrow> string list" where
  "split_on d [] = [[]]"
| "split_on d (x # xs) =
     (if x = d then [] # split_on d xs
      else (case split_on d xs of
              [] \<Rightarrow> [[x]]
            | w # ws \<Rightarrow> (x # w) # ws))"

definition spec_query_of :: "string \<Rightarrow> string" where
  "spec_query_of u =
     drop 1 (dropWhile (\<lambda>ch. ch \<noteq> CHR ''?'') (takeWhile (\<lambda>ch. ch \<noteq> CHR ''#'') u))"

definition spec_pair_of :: "string \<Rightarrow> string \<times> string" where
  "spec_pair_of seg =
     (spec_url_decode (takeWhile (\<lambda>ch. ch \<noteq> CHR ''='') seg),
      spec_url_decode (drop 1 (dropWhile (\<lambda>ch. ch \<noteq> CHR ''='') seg)))"

definition spec_query_param :: "string \<Rightarrow> string \<Rightarrow> string option" where
  "spec_query_param u name =
     map_of (map spec_pair_of (filter (\<lambda>seg. seg \<noteq> []) (split_on (CHR ''&'') (spec_query_of u)))) name"

text \<open>The grammar of the connection URL, as the specification writes it:
  \<^verbatim>\<open><ws|wss>://<host>?connect=1[&secret=<s>][&access_token=<t>][&clientId=<c>]\<close>.\<close>

definition spec_opt_param :: "string \<Rightarrow> string option \<Rightarrow> string" where
  "spec_opt_param name v = (case v of None \<Rightarrow> [] | Some x \<Rightarrow> ''&'' @ name @ ''='' @ x)"

definition spec_connection_url ::
  "bool \<Rightarrow> string \<Rightarrow> string option \<Rightarrow> string option \<Rightarrow> string option \<Rightarrow> string" where
  "spec_connection_url wss h s t cl =
     (if wss then ''wss'' else ''ws'') @ ''://'' @ h @ ''?connect=1''
       @ spec_opt_param ''secret'' s @ spec_opt_param ''access_token'' t
       @ spec_opt_param ''clientId'' cl"

section \<open>Runs and example inputs\<close>

text \<open>A run of the reconnection machinery: arming, and the firing of a timer that was
  armed with \<^verbatim>\<open>_reconnect\<close>.\<close>

datatype rstep = Arm | Fire nat

fun reconnection_step :: "conn \<Rightarrow> rstep \<Rightarrow> conn" where
  "reconnection_step c Arm = setupReconnect c"
| "reconnection_step c (Fire t) =
     (case timers c t of
        None \<Rightarrow> c
      | Some tm \<Rightarrow> if timer_fn tm = ReconnectFn then snd (fire c t) else c)"

definition reconnection_run :: "conn \<Rightarrow> rstep list \<Rightarrow> conn" where
  "reconnection_run c steps = foldl reconnection_step c steps"

text \<open>The configuration \<^verbatim>\<open>{host: 'localhost:8081', token: 'abc'}\<close>, the connection
  constructed from it, and the one constructed from it with \<^verbatim>\<open>noAutoConnect: true\<close>.\<close>

definition example_config :: config where
  "example_config =
     \<lparr>cfg_secure = JUndefined, cfg_clientId = JUndefined, cfg_secret = JUndefined,
      cfg_token = JStr ''abc'', cfg_authCallback = JUndefined,
      cfg_host = Some ''localhost:8081'', cfg_retriesAmount = JUndefined,
      cfg_autoReconnect = JUndefined, cfg_noAutoConnect = JUndefined\<rparr>"

definition idle_conn :: conn where
  "idle_conn =
     \<lparr>secure = JBool False, state = Initialized, clientId = JStr [],
      connectionId = JNull, secret = JNull, token = JStr ''abc'',
      host = ''localhost:8081'', url = ''ws://localhost:8081?connect=1'',
      options = \<lparr>autoReconnect = True, retriesAmount = 7, noAutoConnect = JBool True\<rparr>,
      socket = None, reconnectTimeout = None, currentRetries = 0,
      callbacks = Map.empty, timers = Map.empty, next_id = 0, effects = []\<rparr>"

definition live_conn :: conn where
  "live_conn =
     \<lparr>secure = JBool False, state = Connecting, clientId = JStr [],
      connectionId = JNull, secret = JNull, token = JStr ''abc'',
      host = ''localhost:8081'', url = ''ws://localhost:8081?connect=1'',
      options = \<lparr>autoReconnect = True, retriesAmount = 7, noAutoConnect = JUndefined\<rparr>,
      socket = Some \<lparr>sock_id = 0,
                      sock_url = ''ws://localhost:8081?connect=1&access_token=abc'',
                      readyState = ''opening'',
                      listeners = [\<lparr>l_event = ''open'', l_handler = OnOpen, l_once = True\<rparr>,
                                   \<lparr>l_event = ''error'', l_handler = OnConnectError,
                                    l_once = True\<rparr>]\<rparr>,
      reconnectTimeout = None, currentRetries = 0,
      callbacks = Map.empty, timers = Map.empty, next_id = 1,
      effects = [SockOpen 0 ''ws://localhost:8081?connect=1&access_token=abc'']\<rparr>"

text \<open>A connection with one pending call, \<^verbatim>\<open>_addCallback('r1', cb, 1000)\<close>.\<close>

definition pending_conn :: conn where
  "pending_conn = snd (addCallback idle_conn (JStr ''r1'') (JFun 1 ''cb'') (JNum 1000))"

text \<open>A connection whose retries are used up, with a reconnection timer still scheduled.\<close>

definition exhausted_conn :: conn where
  "exhausted_conn =
     idle_conn\<lparr>state := Failed, currentRetries := 7, reconnectTimeout := Some 0,
               timers := [0 \<mapsto> \<lparr>timer_fn = ReconnectFn, delay = JNum 1000\<rparr>],
               next_id := 1\<rparr>"

text \<open>An episode of failed attempts with \<^verbatim>\<open>retriesAmount: 1\<close>: the first connection
  attempt fails with a transport error, which arms the timer (handle 1); the timer fires,
  which is the one retry; that attempt fails with a transport error too.\<close>

definition transport_error :: jsval where
  "transport_error = JObj [(''type'', JStr ''TransportError'')]"

definition spent_conn :: conn where
  "spent_conn =
     onConnectError
       (snd (fire (onConnectError
                     (live_conn\<lparr>options := (options live_conn)\<lparr>retriesAmount := 1\<rparr>\<rparr>)
                     transport_error) 1))
       transport_error"

text \<open>The handlers that were called, in order, with their arguments.\<close>

fun calls :: "effect list \<Rightarrow> (jsval \<times> jsval list) list" where
  "calls [] = []"
| "calls (Call f args # es) = (f, args) # calls es"
| "calls (e # es) = calls es"

text \<open>A codec and a random source for the examples: the wire form of an envelope is its
  action, and round \<open>i\<close> draws \<open>i\<close>.\<close>

definition example_parse :: "string \<Rightarrow> jsval" where
  "example_parse s = JObj [(''action'', JStr s)]"

definition example_stringify :: "jsval \<Rightarrow> string" where
  "example_stringify v = to_str (get_prop v ''action'')"

definition example_rnd :: "nat \<Rightarrow> nat" where
  "example_rnd i = i"



text \<open>The value a credential or client identifier has when it is set: \<^verbatim>\<open>_buildUrl\<close>
  appends a parameter exactly for the values that are true.\<close>

definition param_value :: "jsval \<Rightarrow> string option" where
  "param_value v = (if truthy v then Some (to_str v) else None)"

text \<open>Text without the characters that a query string gives a meaning to, and values
  that are unset or such a text.\<close>

definition safe_text :: "string \<Rightarrow> bool" where
  "safe_text s = list_all (\<lambda>ch. ch \<notin> set ''&#+%'') s"

fun url_safe :: "jsval \<Rightarrow> bool" where
  "url_safe (JStr s) = safe_text s"
| "url_safe v = (\<not> truthy v)"

text \<open>The pieces of a query that an optional parameter contributes.\<close>

definition seg :: "string \<Rightarrow> string option \<Rightarrow> string list" where
  "seg name v = (case v of None \<Rightarrow> [] | Some x \<Rightarrow> [name @ CHR ''='' # x])"

text \<open>A connection whose secret contains \<^verbatim>\<open>&\<close>, and one with all three values set.\<close>

definition injected_conn :: conn where
  "injected_conn = idle_conn\<lparr>secret := JStr ''a&access_token=b'', token := JNull\<rparr>"

definition full_conn :: conn where
  "full_conn = idle_conn\<lparr>secret := JStr ''s3cr=t'', clientId := JStr ''c1''\<rparr>"

section \<open>Properties\<close>

subsection \<open>The example connections\<close>

lemma idle_conn_constructed:
  "constructor reply (example_config\<lparr>cfg_noAutoConnect := JBool True\<rparr>) = Inr idle_conn"
  by (simp add: constructor_def initial_conn_def example_config_def idle_conn_def js_or_def)

lemma live_conn_constructed:
  "constructor reply example_config = Inr live_conn"
  by (simp add: constructor_def initial_conn_def example_config_def live_conn_def js_or_def
        connect_def hasAuth_def clearSocketListeners_def buildUrl_def
        removeAllListeners_def add_listener_def Let_def)

lemma pending_conn_entry:
  "fst (addCallback idle_conn (JStr ''r1'') (JFun 1 ''cb'') (JNum 1000)) = Inr ()
   \<and> callbacks pending_conn ''r1'' = Some \<lparr>cb = JFun 1 ''cb'', timeout = 0\<rparr>"
  by (simp add: pending_conn_def addCallback_def idle_conn_def setTimeout_def js_or_def)

lemma injected_conn_constructed:
  "constructor reply (example_config\<lparr>cfg_token := JUndefined,
       cfg_secret := JStr ''a&access_token=b'', cfg_noAutoConnect := JBool True\<rparr>)
     = Inr injected_conn"
  by (simp add: constructor_def initial_conn_def example_config_def idle_conn_def
        injected_conn_def js_or_def)

subsection \<open>Closing\<close>

text \<open>
  Claim C10. When \<^verbatim>\<open>close()\<close> is called on a connection that has no transport handle
  (\<^verbatim>\<open>this.socket\<close> is \<^verbatim>\<open>null\<close>), the state is set to closing and the closing event is
  emitted, then the call of \<^verbatim>\<open>close\<close> on the missing handle throws a TypeError. Nothing
  else changes: the state is closing, not closed, and there is no handle that could
  deliver a close event.
\<close>

theorem close_without_socket:
  assumes "socket c = None"
  shows "close c = (Inl TypeError,
                    c\<lparr>state := Closing, effects := effects c @ [Emit ''closing'' []]\<rparr>)
         \<and> state (snd (close c)) \<noteq> Closed
         \<and> socket (snd (close c)) = None"
  using assms by (simp add: close_def emit_def)

theorem close_without_socket_witness:
  "socket idle_conn = None
   \<and> fst (close idle_conn) = Inl TypeError
   \<and> state (snd (close idle_conn)) = Closing
   \<and> effects (snd (close idle_conn)) = [Emit ''closing'' []]"
  using close_without_socket [of idle_conn] by (simp add: idle_conn_def)

text \<open>
  Claim C4. The close handler of the transport: in state closing, the state becomes
  closed and the closed event is emitted, and nothing is armed (no timer is added, the
  reconnection timer handle is as it was). In any other state, the state becomes
  disconnected, the disconnected event is emitted, and the reconnection policy is armed
  (\<^verbatim>\<open>_setupReconnect\<close> runs, which schedules its 1000 ms timer when retries are left).
\<close>

theorem onClose_transitions:
  "(state c = Closing \<longrightarrow>
      onClose c = c\<lparr>state := Closed, effects := effects c @ [Emit ''closed'' []]\<rparr>
      \<and> timers (onClose c) = timers c
      \<and> reconnectTimeout (onClose c) = reconnectTimeout c)
   \<and> (state c \<noteq> Closing \<longrightarrow>
      onClose c = setupReconnect (c\<lparr>state := Disconnected,
                                    effects := effects c @ [Emit ''disconnected'' []]\<rparr>)
      \<and> state (onClose c) = Disconnected
      \<and> effects (onClose c) = effects c @ [Emit ''disconnected'' []]
      \<and> (currentRetries c < retriesAmount (options c) \<longrightarrow>
           reconnectTimeout (onClose c) = Some (next_id c)
           \<and> timers (onClose c) (next_id c)
               = Some \<lparr>timer_fn = ReconnectFn, delay = JNum 1000\<rparr>))"
  by (simp add: onClose_def emit_def setupReconnect_def setTimeout_def clearTimeout_def Let_def
        split: option.splits)

theorem onClose_transitions_witness:
  "state (idle_conn\<lparr>state := Closing\<rparr>) = Closing
   \<and> state (onClose (idle_conn\<lparr>state := Closing\<rparr>)) = Closed
   \<and> effects (onClose (idle_conn\<lparr>state := Closing\<rparr>)) = [Emit ''closed'' []]
   \<and> timers (onClose (idle_conn\<lparr>state := Closing\<rparr>)) = Map.empty
   \<and> state (idle_conn\<lparr>state := Connected\<rparr>) \<noteq> Closing
   \<and> currentRetries (idle_conn\<lparr>state := Connected\<rparr>)
       < retriesAmount (options (idle_conn\<lparr>state := Connected\<rparr>))
   \<and> state (onClose (idle_conn\<lparr>state := Connected\<rparr>)) = Disconnected
   \<and> effects (onClose (idle_conn\<lparr>state := Connected\<rparr>)) = [Emit ''disconnected'' []]
   \<and> timers (onClose (idle_conn\<lparr>state := Connected\<rparr>)) 0
        = Some \<lparr>timer_fn = ReconnectFn, delay = JNum 1000\<rparr>"
  using onClose_transitions [of "idle_conn\<lparr>state := Closing\<rparr>"]
        onClose_transitions [of "idle_conn\<lparr>state := Connected\<rparr>"]
  by (simp add: idle_conn_def setupReconnect_def setTimeout_def)

subsection \<open>The callback registry\<close>

text \<open>
  Claim C6. When the request identifier already has a pending entry in the registry,
  \<^verbatim>\<open>_addCallback\<close> throws its error (the specification's DuplicateRequest:
  \<^verbatim>\<open>Could not make add callback operation with reqId: ...\<close>) and changes nothing, so the
  existing entry is as it was.
\<close>

theorem addCallback_duplicate:
  assumes "callbacks c (to_str reqId) = Some e"
  shows "addCallback c reqId h ms =
           (Inl (Error (''Could not make add callback operation with reqId: '' @ to_str reqId)), c)
         \<and> callbacks (snd (addCallback c reqId h ms)) (to_str reqId) = Some e"
  using assms by (simp add: addCallback_def)

theorem addCallback_duplicate_witness:
  "callbacks pending_conn (to_str (JStr ''r1'')) = Some \<lparr>cb = JFun 1 ''cb'', timeout = 0\<rparr>
   \<and> addCallback pending_conn (JStr ''r1'') (JFun 2 ''other'') JUndefined =
       (Inl (Error ''Could not make add callback operation with reqId: r1''), pending_conn)"
  using addCallback_duplicate [of pending_conn "JStr ''r1''"
          "\<lparr>cb = JFun 1 ''cb'', timeout = 0\<rparr>" "JFun 2 ''other''" JUndefined]
        pending_conn_entry
  by simp

subsection \<open>Reconnection\<close>

lemma reconnection_step_exhausted:
  assumes "retriesAmount (options c) \<le> currentRetries c"
  shows "effects (reconnection_step c s) = effects c
         \<and> socket (reconnection_step c s) = socket c
         \<and> state (reconnection_step c s) = state c
         \<and> currentRetries (reconnection_step c s) = currentRetries c
         \<and> options (reconnection_step c s) = options c"
  using assms
  by (cases s) (auto simp: setupReconnect_def clearTimeout_def fire_def reconnect_def Let_def
                  split: option.splits timer_fn.splits)

lemma reconnection_run_exhausted:
  assumes "retriesAmount (options c) \<le> currentRetries c"
  shows "effects (reconnection_run c steps) = effects c
         \<and> socket (reconnection_run c steps) = socket c
         \<and> state (reconnection_run c steps) = state c
         \<and> currentRetries (reconnection_run c steps) = currentRetries c
         \<and> options (reconnection_run c steps) = options c"
  using assms unfolding reconnection_run_def
proof (induction steps arbitrary: c)
  case Nil
  then show ?case by simp
next
  case (Cons s steps)
  have "retriesAmount (options (reconnection_step c s)) \<le> currentRetries (reconnection_step c s)"
    using reconnection_step_exhausted [OF Cons.prems, of s] Cons.prems by simp
  from Cons.IH [OF this] reconnection_step_exhausted [OF Cons.prems, of s]
  show ?case by simp
qed

lemma spent_conn_state:
  "currentRetries spent_conn = 1 \<and> retriesAmount (options spent_conn) = 1
   \<and> state spent_conn = Failed \<and> reconnectTimeout spent_conn = None
   \<and> timers spent_conn 1 = None
   \<and> effects spent_conn =
       [SockOpen 0 ''ws://localhost:8081?connect=1&access_token=abc'',
        Emit ''failed'' [transport_error],
        SockClose 0,
        SockOpen 2 ''ws://localhost:8081?connect=1&access_token=abc'',
        Emit ''failed'' [transport_error]]"
  by (simp add: spent_conn_def live_conn_def onConnectError_def transport_error_def fail_def
        emit_def setupReconnect_def setTimeout_def clearTimeout_def fire_def reconnect_def
        isConnected_def connect_def hasAuth_def js_or_def clearSocketListeners_def
        removeAllListeners_def add_listener_def buildUrl_def Let_def)

text \<open>
  Claim C3. Once the retry counter is at or above \<^verbatim>\<open>retriesAmount\<close>: a reconnection
  timer that fires does nothing (\<^verbatim>\<open>_reconnect\<close> returns the connection as it is, so it
  does not call \<^verbatim>\<open>connect\<close>); arming cancels the timer that was scheduled, if any, and
  schedules none; and no run of arming and firing, however long, opens a transport,
  emits an event, changes the state or changes the counter. Only something else (a
  handshake, which sets the counter to 0) ends this. The connection \<open>spent_conn\<close> is in
  this situation after its one allowed retry has failed.
\<close>

theorem reconnection_stops_at_ceiling:
  assumes "retriesAmount (options c) \<le> currentRetries c"
  shows "reconnect c = (Inr (), c)
    \<and> setupReconnect c =
           (case reconnectTimeout c of
              None \<Rightarrow> c
            | Some t \<Rightarrow> c\<lparr>reconnectTimeout := None, timers := (timers c)(t := None)\<rparr>)
    \<and> reconnectTimeout (setupReconnect c) = None
    \<and> (timers c t = Some \<lparr>timer_fn = ReconnectFn, delay = d\<rparr> \<longrightarrow>
           fire c t = (Inr (), c\<lparr>timers := (timers c)(t := None)\<rparr>))
    \<and> effects (reconnection_run c steps) = effects c
    \<and> socket (reconnection_run c steps) = socket c
    \<and> state (reconnection_run c steps) = state c
    \<and> currentRetries (reconnection_run c steps) = currentRetries c"
  using assms reconnection_run_exhausted [OF assms, of steps]
  by (auto simp: reconnect_def setupReconnect_def clearTimeout_def fire_def Let_def
           split: option.splits)

theorem reconnection_stops_at_ceiling_witness:
  "retriesAmount (options exhausted_conn) \<le> currentRetries exhausted_conn
   \<and> timers exhausted_conn 0 = Some \<lparr>timer_fn = ReconnectFn, delay = JNum 1000\<rparr>
   \<and> reconnect exhausted_conn = (Inr (), exhausted_conn)
   \<and> fire exhausted_conn 0 = (Inr (), exhausted_conn\<lparr>timers := Map.empty\<rparr>)
   \<and> timers (setupReconnect exhausted_conn) = Map.empty
   \<and> reconnectTimeout (setupReconnect exhausted_conn) = None
   \<and> effects (reconnection_run exhausted_conn [Fire 0, Arm, Arm, Fire 1]) = []
   \<and> retriesAmount (options spent_conn) \<le> currentRetries spent_conn
   \<and> reconnect spent_conn = (Inr (), spent_conn)
   \<and> setupReconnect spent_conn = spent_conn
   \<and> effects (reconnection_run spent_conn [Arm, Fire 1, Arm]) = effects spent_conn"
  using reconnection_stops_at_ceiling [of exhausted_conn 0 "JNum 1000" "[Fire 0, Arm, Arm, Fire 1]"]
        reconnection_stops_at_ceiling [of spent_conn 1 "JNum 1000" "[Arm, Fire 1, Arm]"]
        spent_conn_state
  by (simp add: exhausted_conn_def idle_conn_def)

subsection \<open>Construction and the connection URL\<close>

lemma state_initial_conn: "state (initial_conn opts) = Initialized"
  by (simp add: initial_conn_def Let_def)

lemma connect_not_connected:
  assumes "state c \<noteq> Connected"
  shows "fst (connect c) = Inr () \<and> state (snd (connect c)) \<noteq> Connected"
  using assms
  by (simp add: connect_def fail_def emit_def clearSocketListeners_def Let_def
           split: option.splits)

lemma authDone_not_connected:
  assumes "state c \<noteq> Connected"
  shows "fst (authDone c e t) = Inr () \<and> state (snd (authDone c e t)) \<noteq> Connected"
  using assms
  by (simp add: authDone_def fail_def emit_def Let_def connect_not_connected)

lemma constructor_returns:
  assumes "truthy (cfg_secret opts) \<or> truthy (cfg_token opts) \<or> truthy (cfg_authCallback opts)"
  shows "\<exists>c. constructor reply opts = Inr c"
proof -
  define c0 where "c0 = initial_conn opts"
  define r1 where "r1 = (if isFunction (cfg_authCallback opts)
                   then (case reply of
                           NoReply \<Rightarrow> (Inr (), c0\<lparr>state := Connecting\<rparr>)
                         | Reply err tokenOrData \<Rightarrow>
                             authDone (c0\<lparr>state := Connecting\<rparr>) err tokenOrData)
                   else (Inr (), c0))"
  define c2 where "c2 = (snd r1)\<lparr>socket := None, reconnectTimeout := None,
                             currentRetries := 0, callbacks := Map.empty\<rparr>"
  have r1: "fst r1 = Inr () \<and> state (snd r1) \<noteq> Connected"
    unfolding r1_def
    using authDone_not_connected [of "c0\<lparr>state := Connecting\<rparr>"]
    by (simp add: c0_def state_initial_conn split: auth_reply.splits)
  then have "state c2 \<noteq> Connected"
    by (simp add: c2_def)
  then have c2: "fst (connect c2) = Inr ()"
    using connect_not_connected by blast
  have "constructor reply opts =
          (if \<not> truthy (noAutoConnect (options c2)) then Inr (snd (connect c2)) else Inr c2)"
    using assms r1 c2
    by (simp add: constructor_def Let_def c0_def [symmetric] r1_def [symmetric]
          c2_def [symmetric] case_prod_beta)
  then show ?thesis by simp
qed

text \<open>
  Claim C5. When \<^verbatim>\<open>secret\<close>, \<^verbatim>\<open>token\<close> and \<^verbatim>\<open>authCallback\<close> are all absent from the
  configuration, the constructor throws its error (the specification's
  InvalidConfiguration: \<^verbatim>\<open>No auth keys passed\<close>); when one of them is present, it returns
  a connection. Absent is what the constructor tests, as everywhere in this class: the
  option is missing or has a false value (\<^verbatim>\<open>undefined\<close>, \<^verbatim>\<open>null\<close>, the empty string).
\<close>

theorem constructor_requires_credentials:
  "(\<not> truthy (cfg_secret opts) \<and> \<not> truthy (cfg_token opts) \<and> \<not> truthy (cfg_authCallback opts)
      \<longrightarrow> constructor reply opts = Inl (Error ''No auth keys passed''))
   \<and> (truthy (cfg_secret opts) \<or> truthy (cfg_token opts) \<or> truthy (cfg_authCallback opts)
      \<longrightarrow> (\<exists>c. constructor reply opts = Inr c))"
  using constructor_returns [of opts reply] by (simp add: constructor_def)

theorem constructor_requires_credentials_witness:
  "constructor NoReply (example_config\<lparr>cfg_token := JUndefined\<rparr>)
     = Inl (Error ''No auth keys passed'')
   \<and> (\<exists>c. constructor NoReply example_config = Inr c)"
  using constructor_requires_credentials [of "example_config\<lparr>cfg_token := JUndefined\<rparr>" NoReply]
        constructor_requires_credentials [of example_config NoReply]
  by (simp add: example_config_def)

text \<open>
  Claim C7. For the configuration with host \<^verbatim>\<open>localhost:8081\<close> and token \<^verbatim>\<open>abc\<close> and
  nothing else, the constructor returns a connection whose URL builder gives exactly
  \<^verbatim>\<open>ws://localhost:8081?connect=1&access_token=abc\<close>; this is the URL its first
  \<^verbatim>\<open>connect\<close> opened the transport with, and it is the grammar's URL for scheme
  \<^verbatim>\<open>ws\<close>, that host, no secret, that token and no client identifier.
\<close>

theorem default_connection_url:
  "constructor reply example_config = Inr live_conn
   \<and> buildUrl live_conn = ''ws://localhost:8081?connect=1&access_token=abc''
   \<and> effects live_conn = [SockOpen 0 ''ws://localhost:8081?connect=1&access_token=abc'']
   \<and> buildUrl live_conn
       = spec_connection_url False ''localhost:8081'' None (Some ''abc'') None"
  using live_conn_constructed [of reply]
  by (simp add: live_conn_def buildUrl_def spec_connection_url_def spec_opt_param_def)

subsection \<open>The handshake\<close>






lemma wired_cong: "socket c' = socket c \<Longrightarrow> wired c' = wired c"
  by (simp add: wired_def)

lemma detached_cong: "socket c' = socket c \<Longrightarrow> detached c' = detached c"
  by (simp add: detached_def)















lemma wired_filter:
  assumes "wired (c\<lparr>socket := Some s\<rparr>)"
  shows "wired (c\<lparr>socket := Some (s\<lparr>listeners := filter P (listeners s)\<rparr>)\<rparr>)"
  using assms by (simp add: wired_def list_all_iff)

















subsection \<open>Timeouts of pending calls\<close>

lemma timeout_key_differs:
  "to_str (JErr (''Operation timeout for callback: '' @ k)) \<noteq> k"
proof
  assume "to_str (JErr (''Operation timeout for callback: '' @ k)) = k"
  then have "length (to_str (JErr (''Operation timeout for callback: '' @ k))) = length k"
    by simp
  then show False by simp
qed

text \<open>The timer of a pending call is armed with \<^verbatim>\<open>_execCallback\<close> bound to the timeout
  error and \<^verbatim>\<open>null\<close>, so when it fires the error stands where the request identifier
  belongs: the entry looked up is the one named by the error's text, and the call the
  timer was armed for stays pending, in every connection and for every identifier.\<close>

lemma timeout_timer_leaves_its_call:
  assumes "callbacks c (to_str reqId) = None"
  shows "callbacks (snd (fire (snd (addCallback c reqId h ms)) (next_id c))) (to_str reqId)
           = Some \<lparr>cb = h, timeout = next_id c\<rparr>"
  using assms timeout_key_differs [of "to_str reqId"]
  by (simp add: addCallback_def setTimeout_def fire_def execCallback_def clearTimeout_def
        Let_def split: option.splits)

text \<open>
  Claim C2 at a concrete input. After \<^verbatim>\<open>_addCallback('r1', cb, 1000)\<close> the timer of the
  call is the one with handle 0. When it fires, no handler is called and the entry of
  \<^verbatim>\<open>r1\<close> is still there; the response \<^verbatim>\<open>{reqId: 'r1'}\<close> that arrives afterwards calls
  \<^verbatim>\<open>cb(null, response)\<close> and only then removes the entry.
\<close>

theorem timeout_expiry_leaves_call_pending:
  "timers pending_conn 0
     = Some \<lparr>timer_fn = ExecCallbackFn (JErr ''Operation timeout for callback: r1'') JNull,
             delay = JNum 1000\<rparr>
   \<and> fst (fire pending_conn 0) = Inr ()
   \<and> effects (snd (fire pending_conn 0)) = []
   \<and> callbacks (snd (fire pending_conn 0)) ''r1'' = Some \<lparr>cb = JFun 1 ''cb'', timeout = 0\<rparr>
   \<and> effects (snd (onMessage example_parse (snd (fire pending_conn 0))
                      (JObj [(''reqId'', JStr ''r1'')])))
       = [Call (JFun 1 ''cb'') [JNull, JObj [(''reqId'', JStr ''r1'')]]]
   \<and> callbacks (snd (onMessage example_parse (snd (fire pending_conn 0))
                        (JObj [(''reqId'', JStr ''r1'')]))) ''r1'' = None"
  by (simp add: pending_conn_def idle_conn_def addCallback_def setTimeout_def js_or_def
        fire_def execCallback_def onMessage_def clearTimeout_def Let_def)

subsection \<open>Requests with a callback\<close>

lemma calls_append: "calls (xs @ ys) = calls xs @ calls ys"
  by (induction xs rule: calls.induct) simp_all

lemma randomReqId_nonempty:
  assumes "\<forall>i<24. rnd i < length possible"
  shows "randomReqId rnd c \<noteq> []"
proof -
  have "rnd 0 < length possible" using assms by simp
  then have "charAt possible (rnd 0) \<noteq> []" by (simp add: charAt_def)
  moreover have "[0..<24] = 0 # [1..<24]" by (simp add: upt_conv_Cons)
  ultimately show ?thesis by (simp add: randomReqId_def)
qed

text \<open>
  Claim C9. \<^verbatim>\<open>sendCallback\<close> with a function as callback and a plain object as message
  (every random draw an index into the alphabet, the generated identifier not pending
  yet) registers, under the generated identifier, an entry whose handler is the message
  object, with its \<^verbatim>\<open>reqId\<close> set, and not the callback. No handler is called by
  \<^verbatim>\<open>sendCallback\<close>, and none when a response carrying that identifier arrives: the entry
  is removed and the callback was never called.
\<close>

theorem sendCallback_stores_message:
  assumes "\<forall>i<24. rnd i < length possible"
      and "callbacks c (randomReqId rnd c) = None"
      and "get_prop response ''reqId'' = JStr (randomReqId rnd c)"
  shows "callbacks (snd (sendCallback stringify rnd c (JObj fs) (JFun i src) ms)) (randomReqId rnd c)
           = Some \<lparr>cb = JObj (AList.update ''reqId'' (JStr (randomReqId rnd c)) fs),
                   timeout = next_id c\<rparr>
     \<and> calls (effects (snd (sendCallback stringify rnd c (JObj fs) (JFun i src) ms)))
           = calls (effects c)
     \<and> calls (effects (snd (onMessage parse
                 (snd (sendCallback stringify rnd c (JObj fs) (JFun i src) ms)) response)))
           = calls (effects c)
     \<and> callbacks (snd (onMessage parse
                 (snd (sendCallback stringify rnd c (JObj fs) (JFun i src) ms)) response))
           (randomReqId rnd c) = None"
proof -
  define rid where "rid = randomReqId rnd c"
  define m1 where "m1 = JObj (AList.update ''reqId'' (JStr rid) fs)"
  define c1 where "c1 = snd (sendCallback stringify rnd c (JObj fs) (JFun i src) ms)"
  have rid: "rid \<noteq> []"
    using randomReqId_nonempty [OF assms(1)] by (simp add: rid_def)
  have c1: "callbacks c1 rid = Some \<lparr>cb = m1, timeout = next_id c\<rparr>
            \<and> calls (effects c1) = calls (effects c)"
    using assms(2)
    by (simp add: c1_def sendCallback_def rid_def [symmetric] m1_def [symmetric] Let_def
          addCallback_def setTimeout_def send_def calls_append split: option.splits)
  have resp: "response \<noteq> JUndefined \<and> response \<noteq> JNull \<and> \<not> isString response"
    using assms(3) by (cases response) auto
  then have dat: "(case response of JStr s \<Rightarrow> parse s | _ \<Rightarrow> response) = response"
    by (cases response) auto
  have c2: "calls (effects (snd (onMessage parse c1 response))) = calls (effects c)
            \<and> callbacks (snd (onMessage parse c1 response)) rid = None"
    using c1 rid resp assms(3)
    by (simp add: onMessage_def dat rid_def [symmetric] Let_def execCallback_def
          clearTimeout_def emit_def calls_append m1_def)
  show ?thesis
    using c1 c2 by (simp add: c1_def rid_def m1_def)
qed

theorem sendCallback_stores_message_witness:
  "randomReqId example_rnd live_conn = ''ABCDEFGHIJKLMNOPQRSTUVWX----''
   \<and> callbacks (snd (sendCallback example_stringify example_rnd live_conn
         (JObj [(''action'', JStr ''ping'')]) (JFun 1 ''cb'') JUndefined))
       ''ABCDEFGHIJKLMNOPQRSTUVWX----''
       = Some \<lparr>cb = JObj [(''action'', JStr ''ping''),
                          (''reqId'', JStr ''ABCDEFGHIJKLMNOPQRSTUVWX----'')],
               timeout = 1\<rparr>
   \<and> calls (effects (snd (onMessage example_parse
         (snd (sendCallback example_stringify example_rnd live_conn
            (JObj [(''action'', JStr ''ping'')]) (JFun 1 ''cb'') JUndefined))
         (JObj [(''reqId'', JStr ''ABCDEFGHIJKLMNOPQRSTUVWX----'')])))) = []"
proof -
  have rid: "randomReqId example_rnd live_conn = ''ABCDEFGHIJKLMNOPQRSTUVWX----''"
    by (simp add: randomReqId_def example_rnd_def charAt_def possible_def live_conn_def
          js_or_def upt_conv_Cons)
  have h1: "\<forall>i<24. example_rnd i < length possible"
    by (simp add: example_rnd_def possible_def)
  have h2: "callbacks live_conn (randomReqId example_rnd live_conn) = None"
    by (simp add: live_conn_def)
  have h3: "get_prop (JObj [(''reqId'', JStr ''ABCDEFGHIJKLMNOPQRSTUVWX----'')]) ''reqId''
              = JStr (randomReqId example_rnd live_conn)"
    by (simp add: rid)
  have n: "next_id live_conn = 1" "calls (effects live_conn) = []"
    by (simp_all add: live_conn_def)
  show ?thesis
    using sendCallback_stores_message [OF h1 h2 h3, of example_stringify
            "[(''action'', JStr ''ping'')]" 1 "''cb''" JUndefined example_parse]
    by (simp add: rid n)
qed

subsection \<open>The connection URL and its query parameters\<close>

lemma split_on_none: "d \<notin> set s \<Longrightarrow> split_on d s = [s]"
  by (induction s) auto

lemma split_on_append: "d \<notin> set a \<Longrightarrow> split_on d (a @ d # b) = a # split_on d b"
  by (induction a) auto

lemma spec_url_decode_plain:
  "CHR ''%'' \<notin> set s \<Longrightarrow> CHR ''+'' \<notin> set s \<Longrightarrow> spec_url_decode s = s"
  by (induction s) auto

lemma safe_textD:
  assumes "safe_text s"
  shows "CHR ''&'' \<notin> set s" "CHR ''#'' \<notin> set s" "CHR ''+'' \<notin> set s" "CHR ''%'' \<notin> set s"
  using assms by (auto simp: safe_text_def list_all_iff)

lemma takeWhile_until: "d \<notin> set a \<Longrightarrow> takeWhile (\<lambda>ch. ch \<noteq> d) (a @ d # b) = a"
  by (induction a) auto

lemma dropWhile_until: "d \<notin> set a \<Longrightarrow> dropWhile (\<lambda>ch. ch \<noteq> d) (a @ d # b) = d # b"
  by (induction a) auto

lemma takeWhile_all: "d \<notin> set a \<Longrightarrow> takeWhile (\<lambda>ch. ch \<noteq> d) a = a"
  by (induction a) auto

lemma spec_query_of_url:
  assumes "CHR ''?'' \<notin> set base" and "CHR ''#'' \<notin> set base" and "CHR ''#'' \<notin> set q"
  shows "spec_query_of (base @ CHR ''?'' # q) = q"
proof -
  have "CHR ''#'' \<notin> set (base @ CHR ''?'' # q)"
    using assms by simp
  then have "takeWhile (\<lambda>ch. ch \<noteq> CHR ''#'') (base @ CHR ''?'' # q) = base @ CHR ''?'' # q"
    by (rule takeWhile_all)
  then show ?thesis
    using assms(1) by (simp add: spec_query_of_def dropWhile_until)
qed

lemma split_on_segments:
  assumes "d \<notin> set a" and "\<forall>x \<in> set segs. d \<notin> set x"
  shows "split_on d (a @ concat (map (\<lambda>x. d # x) segs)) = a # segs"
  using assms
proof (induction segs arbitrary: a)
  case Nil
  then show ?case by (simp add: split_on_none)
next
  case (Cons x segs)
  then show ?case by (simp add: split_on_append)
qed

lemma spec_pair_of_param:
  assumes "CHR ''='' \<notin> set name" and "CHR ''%'' \<notin> set name" and "CHR ''+'' \<notin> set name"
      and "safe_text v"
  shows "spec_pair_of (name @ CHR ''='' # v) = (name, v)"
  using assms safe_textD [OF assms(4)]
  by (simp add: spec_pair_of_def spec_url_decode_plain takeWhile_until dropWhile_until)

lemma spec_opt_param_seg:
  "spec_opt_param name v = concat (map (\<lambda>x. CHR ''&'' # x) (seg name v))"
  by (cases v) (simp_all add: spec_opt_param_def seg_def)

text \<open>Reading the parameters of a URL of the grammar gives back the optional values it
  was written from, when these are free of \<^verbatim>\<open>&\<close>, \<^verbatim>\<open>#\<close>, \<^verbatim>\<open>+\<close> and \<^verbatim>\<open>%\<close>.\<close>

lemma spec_query_param_grammar:
  assumes "CHR ''?'' \<notin> set base" and "CHR ''#'' \<notin> set base"
      and "\<forall>x. s = Some x \<longrightarrow> safe_text x"
      and "\<forall>x. t = Some x \<longrightarrow> safe_text x"
      and "\<forall>x. cl = Some x \<longrightarrow> safe_text x"
  shows "spec_query_param (base @ ''?connect=1'' @ spec_opt_param ''secret'' s
           @ spec_opt_param ''access_token'' t @ spec_opt_param ''clientId'' cl) ''secret'' = s
       \<and> spec_query_param (base @ ''?connect=1'' @ spec_opt_param ''secret'' s
           @ spec_opt_param ''access_token'' t @ spec_opt_param ''clientId'' cl) ''access_token'' = t
       \<and> spec_query_param (base @ ''?connect=1'' @ spec_opt_param ''secret'' s
           @ spec_opt_param ''access_token'' t @ spec_opt_param ''clientId'' cl) ''clientId'' = cl"
proof -
  define segs where "segs = seg ''secret'' s @ seg ''access_token'' t @ seg ''clientId'' cl"
  define q where "q = ''connect=1'' @ concat (map (\<lambda>x. CHR ''&'' # x) segs)"
  have u: "base @ ''?connect=1'' @ spec_opt_param ''secret'' s
           @ spec_opt_param ''access_token'' t @ spec_opt_param ''clientId'' cl
         = base @ CHR ''?'' # q"
    by (simp add: q_def segs_def spec_opt_param_seg)
  have amp: "\<forall>x \<in> set segs. CHR ''&'' \<notin> set x"
    using assms(3-5) by (auto simp: segs_def seg_def dest: safe_textD split: option.splits)
  have hash: "\<forall>x \<in> set segs. CHR ''#'' \<notin> set x"
    using assms(3-5) by (auto simp: segs_def seg_def dest: safe_textD split: option.splits)
  have ne: "\<forall>x \<in> set segs. x \<noteq> []"
    by (auto simp: segs_def seg_def split: option.splits)
  have "CHR ''#'' \<notin> set q"
    using hash by (auto simp: q_def)
  then have "spec_query_of (base @ CHR ''?'' # q) = q"
    using assms(1,2) by (rule spec_query_of_url [rotated 2])
  moreover have "split_on (CHR ''&'') q = ''connect=1'' # segs"
    unfolding q_def using amp by (intro split_on_segments) simp_all
  moreover have "filter (\<lambda>x. x \<noteq> []) segs = segs"
    using ne by (simp add: filter_id_conv)
  ultimately have qp: "spec_query_param (base @ CHR ''?'' # q) name
      = map_of (spec_pair_of ''connect=1'' # map spec_pair_of segs) name" for name
    by (simp add: spec_query_param_def)
  have p0: "spec_pair_of ''connect=1'' = (''connect'', ''1'')"
    by (simp add: spec_pair_of_def)
  have ps: "map spec_pair_of (seg name v) = (case v of None \<Rightarrow> [] | Some x \<Rightarrow> [(name, x)])"
    if "CHR ''='' \<notin> set name" "CHR ''%'' \<notin> set name" "CHR ''+'' \<notin> set name"
       "\<forall>x. v = Some x \<longrightarrow> safe_text x" for name v
    using that by (cases v) (simp_all add: seg_def spec_pair_of_param)
  have m: "map spec_pair_of segs
      = (case s of None \<Rightarrow> [] | Some x \<Rightarrow> [(''secret'', x)])
        @ (case t of None \<Rightarrow> [] | Some x \<Rightarrow> [(''access_token'', x)])
        @ (case cl of None \<Rightarrow> [] | Some x \<Rightarrow> [(''clientId'', x)])"
    using assms(3-5) by (simp add: segs_def ps)
  show ?thesis
    unfolding u qp p0 m by (simp split: option.splits)
qed

lemma buildUrl_grammar:
  "buildUrl c = url c @ spec_opt_param ''secret'' (param_value (secret c))
                  @ spec_opt_param ''access_token'' (param_value (token c))
                  @ spec_opt_param ''clientId'' (param_value (clientId c))"
  by (simp add: buildUrl_def spec_opt_param_def param_value_def Let_def)

lemma url_safe_param_value:
  assumes "url_safe v"
  shows "\<forall>x. param_value v = Some x \<longrightarrow> safe_text x"
  using assms by (cases v) (simp_all add: param_value_def)

text \<open>
  Claim C8, as the code has it. The URL builder writes the values as they are, without
  encoding them. When the secret, the token and the client identifier are each unset or
  a text without \<^verbatim>\<open>&\<close>, \<^verbatim>\<open>#\<close>, \<^verbatim>\<open>+\<close> and \<^verbatim>\<open>%\<close> (and the host has no \<^verbatim>\<open>?\<close> and no
  \<^verbatim>\<open>#\<close>), the query parameters \<^verbatim>\<open>secret\<close>, \<^verbatim>\<open>access_token\<close> and \<^verbatim>\<open>clientId\<close> of the built
  URL are exactly the values that are set, and are missing for those that are not.
\<close>

theorem url_round_trip_safe_values:
  assumes "url c = base @ ''?connect=1''"
      and "CHR ''?'' \<notin> set base" and "CHR ''#'' \<notin> set base"
      and "url_safe (secret c)" and "url_safe (token c)" and "url_safe (clientId c)"
  shows "spec_query_param (buildUrl c) ''secret'' = param_value (secret c)
       \<and> spec_query_param (buildUrl c) ''access_token'' = param_value (token c)
       \<and> spec_query_param (buildUrl c) ''clientId'' = param_value (clientId c)"
  unfolding buildUrl_grammar assms(1) append_assoc
  using assms(2,3) url_safe_param_value [OF assms(4)] url_safe_param_value [OF assms(5)]
        url_safe_param_value [OF assms(6)]
  by (rule spec_query_param_grammar)

theorem url_round_trip_safe_values_witness:
  "buildUrl full_conn
     = ''ws://localhost:8081?connect=1&secret=s3cr=t&access_token=abc&clientId=c1''
   \<and> spec_query_param (buildUrl full_conn) ''secret'' = Some ''s3cr=t''
   \<and> spec_query_param (buildUrl full_conn) ''access_token'' = Some ''abc''
   \<and> spec_query_param (buildUrl full_conn) ''clientId'' = Some ''c1''"
  using url_round_trip_safe_values [of full_conn "''ws://localhost:8081''"]
  by (simp add: full_conn_def idle_conn_def safe_text_def param_value_def buildUrl_def)

text \<open>
  Claim C8, as stated, fails: with the secret \<^verbatim>\<open>a&access_token=b\<close> and no token, the
  built URL is \<^verbatim>\<open>ws://localhost:8081?connect=1&secret=a&access_token=b\<close>, whose
  parameters are the secret \<^verbatim>\<open>a\<close> and the token \<^verbatim>\<open>b\<close>.
\<close>

theorem url_round_trip_fails:
  "secret injected_conn = JStr ''a&access_token=b''
   \<and> token injected_conn = JNull
   \<and> buildUrl injected_conn = ''ws://localhost:8081?connect=1&secret=a&access_token=b''
   \<and> spec_query_param (buildUrl injected_conn) ''secret'' = Some ''a''
   \<and> spec_query_param (buildUrl injected_conn) ''secret'' \<noteq> param_value (secret injected_conn)
   \<and> spec_query_param (buildUrl injected_conn) ''access_token'' = Some ''b''
   \<and> spec_query_param (buildUrl injected_conn) ''access_token''
       \<noteq> param_value (token injected_conn)"
  by (simp add: injected_conn_def idle_conn_def buildUrl_def spec_query_param_def
        spec_query_of_def spec_pair_of_def param_value_def)

end
